theory Spec2Isabelle
  imports Main "HOL-Library.Word"
begin

unbundle bit_operations_syntax

section \<open>The quarantine package: data model\<close>

text \<open>
  The development follows \<^verbatim>\<open>packages/quarantine/src\<close>: \<^verbatim>\<open>encryption.ts\<close>,
  \<^verbatim>\<open>storage.ts\<close>, \<^verbatim>\<open>service.ts\<close>, \<^verbatim>\<open>cleanup.ts\<close>, \<^verbatim>\<open>factory.ts\<close> and the
  interfaces of \<^verbatim>\<open>types.ts\<close>. A \<^verbatim>\<open>Buffer\<close> is a list of bytes, a \<^verbatim>\<open>Date\<close> is its
  \<^verbatim>\<open>getTime()\<close> value (milliseconds since the epoch), a JavaScript string that holds
  arbitrary user content is its sequence of UTF-16 code units, and the identifiers, keys
  and base64 texts the package handles are plain strings.
\<close>

type_synonym byte = "8 word"
type_synonym Buffer = "byte list"
type_synonym Date = int
type_synonym jsstring = "16 word list"

text \<open>
  Every failure of the package is a thrown \<^verbatim>\<open>Error\<close>; the constructors name the places
  that throw, after the taxonomy of the specification:
  \<^item> \<open>ValidationError n\<close>: \<^verbatim>\<open>createEncryptionService\<close>, "Master key must be exactly 32
    bytes (256 bits). Got n bytes.";
  \<^item> \<open>NotFound i\<close>: \<^verbatim>\<open>updateStatus\<close> and \<^verbatim>\<open>generateSignedUrl\<close>, "Quarantine record not
    found: i";
  \<^item> \<open>DecryptionFailed\<close>: a decipher session of \<^verbatim>\<open>decrypt\<close> threw (the tag did not verify,
    or the decipher refused its key, IV or tag);
  \<^item> \<open>CipherError\<close>: a cipher session of \<^verbatim>\<open>encrypt\<close> threw;
  \<^item> \<open>StorageError\<close>: a request of the S3 client was rejected;
  \<^item> \<open>UniqueConstraintError i\<close>: an insert met an existing primary key \<open>i\<close>.
\<close>

datatype error =
    ValidationError nat
  | NotFound string
  | DecryptionFailed
  | CipherError
  | StorageError
  | UniqueConstraintError string

datatype QuarantineStatus = QUARANTINED | UNDER_REVIEW | RELEASED | DELETED | EXPIRED

record QuarantineMetadata =
  m_tier :: string
  m_labels :: "string list"
  m_pluginResults :: "(string \<times> string) list list"
  m_sourceId :: "string option"
  m_contentType :: "string option"

text \<open>
  The rows of the two tables. The columns \<^verbatim>\<open>createdAt\<close> and \<^verbatim>\<open>updatedAt\<close> are kept by the
  ORM (\<^verbatim>\<open>timestamps: true\<close>); the package neither reads nor writes them, and they are not
  part of the model.
\<close>

record QuarantineRecordAttributes =
  q_id :: string
  q_s3Key :: string
  q_status :: QuarantineStatus
  q_tier :: string
  q_labels :: "string list"
  q_contentType :: "string option"
  q_sourceId :: "string option"
  q_encryptionKeyId :: string
  q_contentHash :: string
  q_sizeBytes :: nat
  q_expiresAt :: Date
  q_reviewedBy :: "string option"
  q_reviewedAt :: "Date option"
  q_reviewNotes :: "string option"

record EncryptionKeyAttributes =
  k_id :: string
  k_encryptedDataKey :: string
  k_iv :: string
  k_authTag :: string
  k_algorithm :: string

record EncryptedPayload =
  ciphertext :: Buffer
  iv :: Buffer
  authTag :: Buffer
  encryptedDek :: Buffer
  dekIv :: Buffer
  dekAuthTag :: Buffer

section \<open>The Node runtime\<close>

text \<open>
  What the package calls in the Node runtime is a parameter of the model, one field for
  each library function:
  \<^item> \<open>base64_decode\<close>, \<open>base64_encode\<close>, \<open>utf8_encode\<close>: \<^verbatim>\<open>Buffer.from(s, 'base64')\<close>,
    \<^verbatim>\<open>buf.toString('base64')\<close>, \<^verbatim>\<open>Buffer.from(s, 'utf-8')\<close>;
  \<^item> \<open>sha256_hex\<close>: \<^verbatim>\<open>createHash('sha256').update(buf).digest('hex')\<close>;
  \<^item> \<open>aead_encrypt alg key iv tagLen p\<close>: one cipher session,
    \<^verbatim>\<open>createCipheriv(alg, key, iv, {authTagLength})\<close>, \<^verbatim>\<open>update(p)\<close>, \<^verbatim>\<open>final()\<close>,
    \<^verbatim>\<open>getAuthTag()\<close>, giving the ciphertext and the tag, or \<open>None\<close> when a call throws;
  \<^item> \<open>aead_decrypt alg key iv tagLen c t\<close>: one decipher session, \<^verbatim>\<open>createDecipheriv\<close>,
    \<^verbatim>\<open>setAuthTag(t)\<close>, \<^verbatim>\<open>update(c)\<close>, \<^verbatim>\<open>final()\<close>, giving the plaintext, or \<open>None\<close> when a
    call throws (\<^verbatim>\<open>final()\<close> throws when the tag does not verify);
  \<^item> \<open>getUTCFullYear\<close>, \<open>getUTCMonth\<close>, \<open>getUTCDate\<close>: the calendar getters of \<^verbatim>\<open>Date\<close>.
\<close>

record runtime =
  base64_decode :: "string \<Rightarrow> Buffer"
  base64_encode :: "Buffer \<Rightarrow> string"
  utf8_encode :: "jsstring \<Rightarrow> Buffer"
  sha256_hex :: "Buffer \<Rightarrow> string"
  aead_encrypt :: "string \<Rightarrow> Buffer \<Rightarrow> Buffer \<Rightarrow> nat \<Rightarrow> Buffer \<Rightarrow> (Buffer \<times> Buffer) option"
  aead_decrypt :: "string \<Rightarrow> Buffer \<Rightarrow> Buffer \<Rightarrow> nat \<Rightarrow> Buffer \<Rightarrow> Buffer \<Rightarrow> Buffer option"
  getUTCFullYear :: "Date \<Rightarrow> int"
  getUTCMonth :: "Date \<Rightarrow> int"
  getUTCDate :: "Date \<Rightarrow> int"

text \<open>
  \<^verbatim>\<open>randomBytes(n)\<close> reads the system's random source. The source is the sequence of the
  bytes it will deliver; a call takes the first \<open>n\<close> and leaves the rest.
\<close>

type_synonym rng = "nat \<Rightarrow> byte"

definition randomBytes :: "nat \<Rightarrow> rng \<Rightarrow> Buffer \<times> rng" where
  "randomBytes n g = (map g [0..<n], \<lambda>i. g (i + n))"

section \<open>encryption.ts\<close>

definition ALGORITHM :: string where
  "ALGORITHM = ''aes-256-gcm''"

definition DEK_LENGTH :: nat where
  "DEK_LENGTH = 32"

definition IV_LENGTH :: nat where
  "IV_LENGTH = 12"

definition AUTH_TAG_LENGTH :: nat where
  "AUTH_TAG_LENGTH = 16"

text \<open>The service object closes over the decoded master key and nothing else.\<close>

record EncryptionService =
  masterKey :: Buffer

definition createEncryptionService :: "runtime \<Rightarrow> string \<Rightarrow> error + EncryptionService" where
  "createEncryptionService rt masterKeyBase64 =
     (let mk = base64_decode rt masterKeyBase64
      in if length mk \<noteq> 32 then Inl (ValidationError (length mk))
         else Inr \<lparr>masterKey = mk\<rparr>)"

definition encrypt :: "runtime \<Rightarrow> EncryptionService \<Rightarrow> Buffer \<Rightarrow> rng \<Rightarrow> (error + EncryptedPayload) \<times> rng" where
  "encrypt rt svc plaintext g =
     (let (dek, g1) = randomBytes DEK_LENGTH g;
          (iv0, g2) = randomBytes IV_LENGTH g1
      in case aead_encrypt rt ALGORITHM dek iv0 AUTH_TAG_LENGTH plaintext of
           None \<Rightarrow> (Inl CipherError, g2)
         | Some (ct, tag) \<Rightarrow>
             (let (dekIv0, g3) = randomBytes IV_LENGTH g2
              in case aead_encrypt rt ALGORITHM (masterKey svc) dekIv0 AUTH_TAG_LENGTH dek of
                   None \<Rightarrow> (Inl CipherError, g3)
                 | Some (wrapped, wrapTag) \<Rightarrow>
                     (Inr \<lparr>ciphertext = ct, iv = iv0, authTag = tag,
                           encryptedDek = wrapped, dekIv = dekIv0, dekAuthTag = wrapTag\<rparr>, g3)))"

definition decrypt :: "runtime \<Rightarrow> EncryptionService \<Rightarrow> EncryptedPayload \<Rightarrow> error + Buffer" where
  "decrypt rt svc payload =
     (case aead_decrypt rt ALGORITHM (masterKey svc) (dekIv payload) AUTH_TAG_LENGTH
             (encryptedDek payload) (dekAuthTag payload) of
        None \<Rightarrow> Inl DecryptionFailed
      | Some dek \<Rightarrow>
          (case aead_decrypt rt ALGORITHM dek (iv payload) AUTH_TAG_LENGTH
                  (ciphertext payload) (authTag payload) of
             None \<Rightarrow> Inl DecryptionFailed
           | Some plaintext \<Rightarrow> Inr plaintext))"

text \<open>
  The functional contract of AES-256-GCM that the round trip rests on: with a 32-byte
  key and a 12-byte IV a cipher session succeeds, and the decipher session with the same
  key and IV, on the ciphertext and tag it produced, returns the plaintext.
\<close>

definition aead_correct :: "runtime \<Rightarrow> bool" where
  "aead_correct rt \<longleftrightarrow>
     (\<forall>key nonce p. length key = 32 \<and> length nonce = 12 \<longrightarrow>
        (\<exists>c t. aead_encrypt rt ALGORITHM key nonce AUTH_TAG_LENGTH p = Some (c, t)
             \<and> aead_decrypt rt ALGORITHM key nonce AUTH_TAG_LENGTH c t = Some p))"


section \<open>The outside world: object store, tables, clock, identifiers\<close>

text \<open>
  The S3 client of \<^verbatim>\<open>storage.ts\<close> sends commands to a bucket. A request can be rejected
  (network, permissions, the backend): \<open>s3_faults\<close> is the sequence of verdicts of the
  requests to come, \<open>True\<close> for a request that is rejected. Every request, rejected or
  not, is recorded in the trace, and a request that is accepted takes effect in full:
  deleting a key that is not there changes nothing.
\<close>

datatype S3Command =
    PutObjectCommand string Buffer
  | DeleteObjectCommand string
  | DeleteObjectsCommand "string list"

datatype event =
    S3Request S3Command
  | KeyInsert string
  | RecordInsert string
  | RecordUpdate string
  | RecordBulkUpdate "string list"

record world =
  qrecords :: "QuarantineRecordAttributes list"
  ekeys :: "EncryptionKeyAttributes list"
  bucket :: "string \<rightharpoonup> Buffer"
  s3_faults :: "nat \<Rightarrow> bool"
  clock :: "nat \<Rightarrow> Date"
  uuids :: "nat \<Rightarrow> string"
  random :: rng
  trace :: "event list"

text \<open>\<^verbatim>\<open>new Date()\<close> and \<^verbatim>\<open>randomUUID()\<close> take the next reading of their sequence.\<close>

definition newDate :: "world \<Rightarrow> Date \<times> world" where
  "newDate w = (clock w 0, w\<lparr>clock := \<lambda>n. clock w (Suc n)\<rparr>)"

definition randomUUID :: "world \<Rightarrow> string \<times> world" where
  "randomUUID w = (uuids w 0, w\<lparr>uuids := \<lambda>n. uuids w (Suc n)\<rparr>)"

definition s3_apply :: "S3Command \<Rightarrow> (string \<rightharpoonup> Buffer) \<Rightarrow> (string \<rightharpoonup> Buffer)" where
  "s3_apply cmd b =
     (case cmd of
        PutObjectCommand k body \<Rightarrow> b(k \<mapsto> body)
      | DeleteObjectCommand k \<Rightarrow> b(k := None)
      | DeleteObjectsCommand ks \<Rightarrow> (\<lambda>k. if k \<in> set ks then None else b k))"

definition client_send :: "S3Command \<Rightarrow> world \<Rightarrow> (error + unit) \<times> world" where
  "client_send cmd w =
     (let w1 = w\<lparr>s3_faults := \<lambda>n. s3_faults w (Suc n), trace := trace w @ [S3Request cmd]\<rparr>
      in if s3_faults w 0 then (Inl StorageError, w1)
         else (Inr (), w1\<lparr>bucket := s3_apply cmd (bucket w)\<rparr>))"

section \<open>storage.ts\<close>

definition storage_upload :: "string \<Rightarrow> Buffer \<Rightarrow> world \<Rightarrow> (error + unit) \<times> world" where
  "storage_upload key data w = client_send (PutObjectCommand key data) w"

definition storage_delete :: "string \<Rightarrow> world \<Rightarrow> (error + unit) \<times> world" where
  "storage_delete key w = client_send (DeleteObjectCommand key) w"

definition batchSize :: nat where
  "batchSize = 1000"

text \<open>
  The loop \<^verbatim>\<open>for (let i = 0; i < keys.length; i += batchSize)\<close> of \<^verbatim>\<open>deleteMany\<close>, on the
  keys from index \<open>i\<close> on: \<^verbatim>\<open>keys.slice(i, i + batchSize)\<close> is \<open>take batchSize\<close> of them.
\<close>

function deleteMany_loop :: "string list \<Rightarrow> world \<Rightarrow> (error + unit) \<times> world" where
  "deleteMany_loop keys w =
     (if keys = [] then (Inr (), w)
      else (case client_send (DeleteObjectsCommand (take batchSize keys)) w of
              (Inl e, w1) \<Rightarrow> (Inl e, w1)
            | (Inr u, w1) \<Rightarrow> deleteMany_loop (drop batchSize keys) w1))"
  by pat_completeness auto
termination
  by (relation "measure (\<lambda>(keys, w). length keys)") (auto simp: batchSize_def)

declare deleteMany_loop.simps [simp del]

definition storage_deleteMany :: "string list \<Rightarrow> world \<Rightarrow> (error + unit) \<times> world" where
  "storage_deleteMany keys w =
     (if length keys = 0 then (Inr (), w) else deleteMany_loop keys w)"

section \<open>The two models (tables)\<close>

text \<open>
  \<^verbatim>\<open>id\<close> is the primary key of both tables (\<^verbatim>\<open>primaryKey: true\<close>): an insert with an
  existing key is refused. The metadata store itself is taken to be reliable; the
  failures the model follows are those of the object store.
\<close>

definition EncryptionKey_create ::
  "EncryptionKeyAttributes \<Rightarrow> world \<Rightarrow> (error + EncryptionKeyAttributes) \<times> world" where
  "EncryptionKey_create row w =
     (if k_id row \<in> set (map k_id (ekeys w)) then (Inl (UniqueConstraintError (k_id row)), w)
      else (Inr row, w\<lparr>ekeys := ekeys w @ [row], trace := trace w @ [KeyInsert (k_id row)]\<rparr>))"

definition QuarantineRecord_create ::
  "QuarantineRecordAttributes \<Rightarrow> world \<Rightarrow> (error + QuarantineRecordAttributes) \<times> world" where
  "QuarantineRecord_create row w =
     (if q_id row \<in> set (map q_id (qrecords w)) then (Inl (UniqueConstraintError (q_id row)), w)
      else (Inr row, w\<lparr>qrecords := qrecords w @ [row], trace := trace w @ [RecordInsert (q_id row)]\<rparr>))"

definition QuarantineRecord_findByPk :: "string \<Rightarrow> world \<Rightarrow> QuarantineRecordAttributes option" where
  "QuarantineRecord_findByPk i w = find (\<lambda>r. q_id r = i) (qrecords w)"

definition QuarantineRecord_findAll ::
  "(QuarantineRecordAttributes \<Rightarrow> bool) \<Rightarrow> world \<Rightarrow> QuarantineRecordAttributes list" where
  "QuarantineRecord_findAll wh w = filter wh (qrecords w)"

text \<open>
  The object \<^verbatim>\<open>updateData\<close> of \<^verbatim>\<open>updateStatus\<close>, and the \<^verbatim>\<open>{ status: 'EXPIRED' }\<close> of the
  sweep: a column that is absent from the object (\<open>None\<close>) keeps its value.
\<close>

record updateData =
  u_status :: "QuarantineStatus option"
  u_reviewedBy :: "string option"
  u_reviewedAt :: "Date option"
  u_reviewNotes :: "string option"

definition set_columns :: "updateData \<Rightarrow> QuarantineRecordAttributes \<Rightarrow> QuarantineRecordAttributes" where
  "set_columns u r =
     r\<lparr>q_status := (case u_status u of None \<Rightarrow> q_status r | Some s \<Rightarrow> s),
       q_reviewedBy := (case u_reviewedBy u of None \<Rightarrow> q_reviewedBy r | Some b \<Rightarrow> Some b),
       q_reviewedAt := (case u_reviewedAt u of None \<Rightarrow> q_reviewedAt r | Some t \<Rightarrow> Some t),
       q_reviewNotes := (case u_reviewNotes u of None \<Rightarrow> q_reviewNotes r | Some n \<Rightarrow> Some n)\<rparr>"

text \<open>\<^verbatim>\<open>record.update(updateData)\<close> on the instance found under key \<open>i\<close>.\<close>

definition record_update :: "string \<Rightarrow> updateData \<Rightarrow> world \<Rightarrow> world" where
  "record_update i u w =
     w\<lparr>qrecords := map (\<lambda>r. if q_id r = i then set_columns u r else r) (qrecords w),
       trace := trace w @ [RecordUpdate i]\<rparr>"

text \<open>\<^verbatim>\<open>QuarantineRecord.update(values, { where: { id: { [Op.in]: ids } } })\<close>.\<close>

definition QuarantineRecord_update :: "updateData \<Rightarrow> string list \<Rightarrow> world \<Rightarrow> world" where
  "QuarantineRecord_update u ids w =
     w\<lparr>qrecords := map (\<lambda>r. if q_id r \<in> set ids then set_columns u r else r) (qrecords w),
       trace := trace w @ [RecordBulkUpdate ids]\<rparr>"

section \<open>cleanup.ts\<close>

text \<open>
  The \<^verbatim>\<open>where\<close> clause of the sweep: \<^verbatim>\<open>expiresAt <= now\<close> and \<^verbatim>\<open>status\<close> in
  \<^verbatim>\<open>['QUARANTINED', 'UNDER_REVIEW']\<close>.
\<close>

definition expired_where :: "Date \<Rightarrow> QuarantineRecordAttributes \<Rightarrow> bool" where
  "expired_where now r \<longleftrightarrow> q_expiresAt r \<le> now \<and> q_status r \<in> set [QUARANTINED, UNDER_REVIEW]"

definition cleanupExpiredRecords :: "world \<Rightarrow> (error + nat) \<times> world" where
  "cleanupExpiredRecords w =
     (let (now, w1) = newDate w;
          expiredRecords = QuarantineRecord_findAll (expired_where now) w1
      in if length expiredRecords = 0 then (Inr 0, w1)
         else (let s3Keys = map q_s3Key expiredRecords
               in case storage_deleteMany s3Keys w1 of
                    (Inl e, w2) \<Rightarrow> (Inl e, w2)
                  | (Inr u, w2) \<Rightarrow>
                      (Inr (length expiredRecords),
                       QuarantineRecord_update
                         \<lparr>u_status = Some EXPIRED, u_reviewedBy = None, u_reviewedAt = None,
                          u_reviewNotes = None\<rparr>
                         (map q_id expiredRecords) w2)))"

section \<open>service.ts\<close>

text \<open>
  \<^verbatim>\<open>createService(deps)\<close>: the storage client and the two models of \<^verbatim>\<open>deps\<close> act on the
  world above; what is left of \<^verbatim>\<open>deps\<close> is the encryption service and \<^verbatim>\<open>expiryHours\<close>.
\<close>

record ServiceDeps =
  encryption :: EncryptionService
  expiryHours :: int

text \<open>\<^verbatim>\<open>String(n)\<close> for an integer \<open>n\<close>, and \<^verbatim>\<open>s.padStart(targetLength, c)\<close>.\<close>

fun digits :: "nat \<Rightarrow> string" where
  "digits n = (if n < 10 then [''0123456789'' ! n] else digits (n div 10) @ [''0123456789'' ! (n mod 10)])"

declare digits.simps [simp del]

definition String_of :: "int \<Rightarrow> string" where
  "String_of n = (if n < 0 then CHR ''-'' # digits (nat (- n)) else digits (nat n))"

definition padStart :: "nat \<Rightarrow> char \<Rightarrow> string \<Rightarrow> string" where
  "padStart targetLength c s = replicate (targetLength - length s) c @ s"

definition datePath :: "runtime \<Rightarrow> Date \<Rightarrow> string" where
  "datePath rt now =
     String_of (getUTCFullYear rt now) @ ''/''
       @ padStart 2 CHR ''0'' (String_of (getUTCMonth rt now + 1)) @ ''/''
       @ padStart 2 CHR ''0'' (String_of (getUTCDate rt now))"

definition store :: "runtime \<Rightarrow> ServiceDeps \<Rightarrow> jsstring \<Rightarrow> QuarantineMetadata \<Rightarrow> world \<Rightarrow> (error + string) \<times> world" where
  "store rt deps content metadata w =
     (let contentBuffer = utf8_encode rt content;
          contentHash = sha256_hex rt contentBuffer;
          (enc, g) = encrypt rt (encryption deps) contentBuffer (random w);
          w1 = w\<lparr>random := g\<rparr>
      in case enc of
           Inl e \<Rightarrow> (Inl e, w1)
         | Inr encrypted \<Rightarrow>
             (let (keyId, w2) = randomUUID w1
              in case EncryptionKey_create
                        \<lparr>k_id = keyId,
                         k_encryptedDataKey = base64_encode rt (encryptedDek encrypted),
                         k_iv = base64_encode rt (dekIv encrypted),
                         k_authTag = base64_encode rt (dekAuthTag encrypted),
                         k_algorithm = ''aes-256-gcm''\<rparr> w2 of
                   (Inl e, w3) \<Rightarrow> (Inl e, w3)
                 | (Inr keyRecord, w3) \<Rightarrow>
                     (let (now, w4) = newDate w3;
                          (objectId, w5) = randomUUID w4;
                          s3Key = ''quarantine/'' @ datePath rt now @ ''/'' @ objectId
                      in case storage_upload s3Key (ciphertext encrypted) w5 of
                           (Inl e, w6) \<Rightarrow> (Inl e, w6)
                         | (Inr u, w6) \<Rightarrow>
                             (let (recordId, w7) = randomUUID w6
                              in case QuarantineRecord_create
                                        \<lparr>q_id = recordId,
                                         q_s3Key = s3Key,
                                         q_status = QUARANTINED,
                                         q_tier = m_tier metadata,
                                         q_labels = m_labels metadata,
                                         q_contentType = m_contentType metadata,
                                         q_sourceId = m_sourceId metadata,
                                         q_encryptionKeyId = k_id keyRecord,
                                         q_contentHash = contentHash,
                                         q_sizeBytes = length contentBuffer,
                                         q_expiresAt = now + expiryHours deps * 60 * 60 * 1000,
                                         q_reviewedBy = None,
                                         q_reviewedAt = None,
                                         q_reviewNotes = None\<rparr> w7 of
                                   (Inl e, w8) \<Rightarrow> (Inl e, w8)
                                 | (Inr record, w8) \<Rightarrow> (Inr (q_id record), w8)))))"

definition getMetadata :: "string \<Rightarrow> world \<Rightarrow> QuarantineRecordAttributes option" where
  "getMetadata i w = QuarantineRecord_findByPk i w"

text \<open>
  \<^verbatim>\<open>if (reviewedBy)\<close> and \<^verbatim>\<open>if (reviewNotes)\<close> on an optional string argument: \<^verbatim>\<open>undefined\<close>
  (\<open>None\<close>) and the empty string are falsy, every other string is truthy.
\<close>

definition truthy :: "string option \<Rightarrow> bool" where
  "truthy x = (case x of None \<Rightarrow> False | Some s \<Rightarrow> s \<noteq> [])"

text \<open>The \<^verbatim>\<open>updateData\<close> that \<^verbatim>\<open>updateStatus\<close> builds; it reads the clock when it stamps.\<close>

definition build_updateData ::
  "QuarantineStatus \<Rightarrow> string option \<Rightarrow> string option \<Rightarrow> world \<Rightarrow> updateData \<times> world" where
  "build_updateData status reviewedBy reviewNotes w =
     (let u0 = \<lparr>u_status = Some status, u_reviewedBy = None, u_reviewedAt = None, u_reviewNotes = None\<rparr>;
          (u1, w1) = (if truthy reviewedBy
                      then (let (d, w') = newDate w
                            in (u0\<lparr>u_reviewedBy := reviewedBy, u_reviewedAt := Some d\<rparr>, w'))
                      else (u0, w));
          u2 = (if truthy reviewNotes then u1\<lparr>u_reviewNotes := reviewNotes\<rparr> else u1)
      in (u2, w1))"

definition updateStatus ::
  "string \<Rightarrow> QuarantineStatus \<Rightarrow> string option \<Rightarrow> string option \<Rightarrow> world \<Rightarrow> (error + unit) \<times> world" where
  "updateStatus i status reviewedBy reviewNotes w =
     (case QuarantineRecord_findByPk i w of
        None \<Rightarrow> (Inl (NotFound i), w)
      | Some record \<Rightarrow>
          (let (upd, w1) = build_updateData status reviewedBy reviewNotes w
           in if status = DELETED
              then (case storage_delete (q_s3Key record) w1 of
                      (Inl e, w2) \<Rightarrow> (Inl e, w2)
                    | (Inr u, w2) \<Rightarrow> (Inr (), record_update (q_id record) upd w2))
              else (Inr (), record_update (q_id record) upd w1)))"

definition cleanup :: "world \<Rightarrow> (error + nat) \<times> world" where
  "cleanup w = cleanupExpiredRecords w"

section \<open>factory.ts\<close>

definition DEFAULT_EXPIRY_HOURS :: int where
  "DEFAULT_EXPIRY_HOURS = 72"

text \<open>
  Of \<^verbatim>\<open>QuarantineConfig\<close> the factory reads \<^verbatim>\<open>encryption.masterKey\<close> and the optional
  \<^verbatim>\<open>expiryHours\<close>; \<^verbatim>\<open>storage\<close> and \<^verbatim>\<open>database\<close> are the handles of the world.
\<close>

record QuarantineConfig =
  c_masterKey :: string
  c_expiryHours :: "int option"

definition createQuarantineService :: "runtime \<Rightarrow> QuarantineConfig \<Rightarrow> error + ServiceDeps" where
  "createQuarantineService rt config =
     (case createEncryptionService rt (c_masterKey config) of
        Inl e \<Rightarrow> Inl e
      | Inr enc \<Rightarrow>
          Inr \<lparr>encryption = enc,
               expiryHours = (case c_expiryHours config of None \<Rightarrow> DEFAULT_EXPIRY_HOURS | Some h \<Rightarrow> h)\<rparr>)"

section \<open>A small runtime for evaluating the model\<close>

text \<open>
  The theorems below hold for every runtime. To evaluate the model at concrete inputs a
  runtime is needed; this one is small enough to compute with: base64 of the standard
  alphabet, UTF-8 of the basic plane, the proleptic Gregorian calendar, and in the place
  of AES-GCM and SHA-256 two stand-ins of the same shape (an XOR stream with a
  checksum for a tag, which the decipher verifies, and a hexadecimal checksum). They are no
  cryptography; nothing is claimed about them but what is proved.
\<close>

definition b64_value :: "char \<Rightarrow> nat option" where
  "b64_value c =
     (let n = (of_char c :: nat)
      in if 65 \<le> n \<and> n \<le> 90 then Some (n - 65)
         else if 97 \<le> n \<and> n \<le> 122 then Some (n - 71)
         else if 48 \<le> n \<and> n \<le> 57 then Some (n + 4)
         else if n = 43 then Some 62
         else if n = 47 then Some 63
         else None)"

fun b64_bytes :: "nat list \<Rightarrow> Buffer" where
  "b64_bytes (a # b # c # d # rest) =
     [of_nat (a * 4 + b div 16), of_nat ((b mod 16) * 16 + c div 4), of_nat ((c mod 4) * 64 + d)]
       @ b64_bytes rest"
| "b64_bytes [a, b, c] = [of_nat (a * 4 + b div 16), of_nat ((b mod 16) * 16 + c div 4)]"
| "b64_bytes [a, b] = [of_nat (a * 4 + b div 16)]"
| "b64_bytes xs = []"

definition mini_base64_decode :: "string \<Rightarrow> Buffer" where
  "mini_base64_decode s = b64_bytes (List.map_filter b64_value (takeWhile (\<lambda>c. c \<noteq> CHR ''='') s))"

definition b64_char :: "nat \<Rightarrow> char" where
  "b64_char n = ''ABCDEFGHIJKLMNOPQRSTUVWXYZabcdefghijklmnopqrstuvwxyz0123456789+/'' ! (n mod 64)"

fun mini_base64_encode :: "Buffer \<Rightarrow> string" where
  "mini_base64_encode (x # y # z # rest) =
     [b64_char (unat x div 4), b64_char ((unat x mod 4) * 16 + unat y div 16),
      b64_char ((unat y mod 16) * 4 + unat z div 64), b64_char (unat z mod 64)]
       @ mini_base64_encode rest"
| "mini_base64_encode [x, y] =
     [b64_char (unat x div 4), b64_char ((unat x mod 4) * 16 + unat y div 16),
      b64_char ((unat y mod 16) * 4), CHR ''='']"
| "mini_base64_encode [x] =
     [b64_char (unat x div 4), b64_char ((unat x mod 4) * 16), CHR ''='', CHR ''='']"
| "mini_base64_encode [] = []"

definition utf8_unit :: "16 word \<Rightarrow> Buffer" where
  "utf8_unit u =
     (let n = unat u
      in if n < 128 then [of_nat n]
         else if n < 2048 then [of_nat (192 + n div 64), of_nat (128 + n mod 64)]
         else [of_nat (224 + n div 4096), of_nat (128 + (n div 64) mod 64), of_nat (128 + n mod 64)])"

definition mini_utf8_encode :: "jsstring \<Rightarrow> Buffer" where
  "mini_utf8_encode s = concat (map utf8_unit s)"

definition hex_byte :: "byte \<Rightarrow> string" where
  "hex_byte b = [''0123456789abcdef'' ! (unat b div 16), ''0123456789abcdef'' ! (unat b mod 16)]"

definition checksum :: "Buffer \<Rightarrow> byte" where
  "checksum bs = foldr (+) bs 0"

definition mini_digest_hex :: "Buffer \<Rightarrow> string" where
  "mini_digest_hex bs = hex_byte (checksum bs) @ hex_byte (of_nat (length bs))"

definition mini_pad :: "Buffer \<Rightarrow> Buffer \<Rightarrow> byte" where
  "mini_pad key nonce = (case (key, nonce) of (k # ks, v # vs) \<Rightarrow> k XOR v | _ \<Rightarrow> 0)"

definition mini_tag :: "Buffer \<Rightarrow> Buffer \<Rightarrow> nat \<Rightarrow> Buffer \<Rightarrow> Buffer" where
  "mini_tag key nonce n c = replicate n (foldr (XOR) c (mini_pad key nonce))"

definition mini_aead_encrypt ::
  "string \<Rightarrow> Buffer \<Rightarrow> Buffer \<Rightarrow> nat \<Rightarrow> Buffer \<Rightarrow> (Buffer \<times> Buffer) option" where
  "mini_aead_encrypt alg key nonce n p =
     (if alg = ''aes-256-gcm'' \<and> length key = 32 \<and> nonce \<noteq> []
      then (let c = map (\<lambda>b. b XOR mini_pad key nonce) p in Some (c, mini_tag key nonce n c))
      else None)"

definition mini_aead_decrypt ::
  "string \<Rightarrow> Buffer \<Rightarrow> Buffer \<Rightarrow> nat \<Rightarrow> Buffer \<Rightarrow> Buffer \<Rightarrow> Buffer option" where
  "mini_aead_decrypt alg key nonce n c t =
     (if alg = ''aes-256-gcm'' \<and> length key = 32 \<and> nonce \<noteq> [] \<and> t = mini_tag key nonce n c
      then Some (map (\<lambda>b. b XOR mini_pad key nonce) c)
      else None)"

text \<open>
  The civil date of a day number (days since 1970-01-01), by eras of 400 years that
  start on 1 March: year, month (1 to 12), day of the month.
\<close>

definition civil_from_days :: "int \<Rightarrow> int \<times> int \<times> int" where
  "civil_from_days z0 =
     (let z = z0 + 719468;
          era = z div 146097;
          doe = z - era * 146097;
          yoe = (doe - doe div 1460 + doe div 36524 - doe div 146096) div 365;
          doy = doe - (365 * yoe + yoe div 4 - yoe div 100);
          mp = (5 * doy + 2) div 153;
          d = doy - (153 * mp + 2) div 5 + 1;
          m = (if mp < 10 then mp + 3 else mp - 9)
      in (yoe + era * 400 + (if m \<le> 2 then 1 else 0), m, d))"

definition mini_runtime :: runtime where
  "mini_runtime =
     \<lparr>base64_decode = mini_base64_decode,
      base64_encode = mini_base64_encode,
      utf8_encode = mini_utf8_encode,
      sha256_hex = mini_digest_hex,
      aead_encrypt = mini_aead_encrypt,
      aead_decrypt = mini_aead_decrypt,
      getUTCFullYear = (\<lambda>t. fst (civil_from_days (t div 86400000))),
      getUTCMonth = (\<lambda>t. fst (snd (civil_from_days (t div 86400000))) - 1),
      getUTCDate = (\<lambda>t. snd (snd (civil_from_days (t div 86400000))))\<rparr>"

section \<open>Notions the statements use\<close>

text \<open>The \<open>n\<close> bytes of a random source from position \<open>a\<close> on.\<close>

definition segment :: "rng \<Rightarrow> nat \<Rightarrow> nat \<Rightarrow> Buffer" where
  "segment g a n = map (\<lambda>i. g (a + i)) [0..<n]"


text \<open>The requests to the object store in a trace, in their order.\<close>

definition s3_requests :: "event list \<Rightarrow> S3Command list" where
  "s3_requests tr = List.map_filter (\<lambda>e. case e of S3Request c \<Rightarrow> Some c | _ \<Rightarrow> None) tr"

text \<open>
  The rows a successful \<^verbatim>\<open>store\<close> inserts, in terms of the readings it takes from the
  world it starts in: the three identifiers \<open>uuids w 0\<close>, \<open>uuids w 1\<close>, \<open>uuids w 2\<close> and
  the clock reading \<open>clock w 0\<close>.
\<close>

definition new_key_row :: "runtime \<Rightarrow> world \<Rightarrow> EncryptedPayload \<Rightarrow> EncryptionKeyAttributes" where
  "new_key_row rt w p =
     \<lparr>k_id = uuids w 0,
      k_encryptedDataKey = base64_encode rt (encryptedDek p),
      k_iv = base64_encode rt (dekIv p),
      k_authTag = base64_encode rt (dekAuthTag p),
      k_algorithm = ''aes-256-gcm''\<rparr>"

definition new_record_row ::
  "runtime \<Rightarrow> ServiceDeps \<Rightarrow> jsstring \<Rightarrow> QuarantineMetadata \<Rightarrow> world \<Rightarrow> QuarantineRecordAttributes" where
  "new_record_row rt deps content metadata w =
     \<lparr>q_id = uuids w 2,
      q_s3Key = ''quarantine/'' @ datePath rt (clock w 0) @ ''/'' @ uuids w 1,
      q_status = QUARANTINED,
      q_tier = m_tier metadata,
      q_labels = m_labels metadata,
      q_contentType = m_contentType metadata,
      q_sourceId = m_sourceId metadata,
      q_encryptionKeyId = uuids w 0,
      q_contentHash = sha256_hex rt (utf8_encode rt content),
      q_sizeBytes = length (utf8_encode rt content),
      q_expiresAt = clock w 0 + expiryHours deps * 60 * 60 * 1000,
      q_reviewedBy = None,
      q_reviewedAt = None,
      q_reviewNotes = None\<rparr>"

subsection \<open>The sweep as the specification words it\<close>

text \<open>
  The specification's \<^verbatim>\<open>sweepExpired(now)\<close>: the records with status \<^verbatim>\<open>QUARANTINED\<close> or
  \<^verbatim>\<open>UNDER_REVIEW\<close> and \<^verbatim>\<open>expiresAt <= now\<close> are counted, their blobs leave the object
  store, their status becomes \<^verbatim>\<open>EXPIRED\<close>, and every other record is left as it is. The
  time \<open>now\<close> is an argument here, as it is in the specification.
\<close>

definition sweep_due :: "Date \<Rightarrow> QuarantineRecordAttributes \<Rightarrow> bool" where
  "sweep_due now r \<longleftrightarrow> (q_status r = QUARANTINED \<or> q_status r = UNDER_REVIEW) \<and> q_expiresAt r \<le> now"

definition sweepExpired_spec ::
  "Date \<Rightarrow> QuarantineRecordAttributes list \<Rightarrow> (string \<rightharpoonup> Buffer)
     \<Rightarrow> nat \<times> QuarantineRecordAttributes list \<times> (string \<rightharpoonup> Buffer)" where
  "sweepExpired_spec now rows b =
     (length (filter (sweep_due now) rows),
      map (\<lambda>r. if sweep_due now r then r\<lparr>q_status := EXPIRED\<rparr> else r) rows,
      (\<lambda>k. if k \<in> set (map q_s3Key (filter (sweep_due now) rows)) then None else b k))"

subsection \<open>Concrete inputs\<close>

text \<open>
  A master key (the bytes 0 to 31, in base64), a random source, and a world with three
  records that all expire at time 100, as in the specification's scenario for the sweep:
  one quarantined, one under review, one released. Its object store rejects every
  request or none, and its clock starts at the given time.
\<close>

definition mini_key64 :: string where
  "mini_key64 = ''AAECAwQFBgcICQoLDA0ODxAREhMUFRYXGBkaGxwdHh8=''"

definition mini_service :: EncryptionService where
  "mini_service = \<lparr>masterKey = map of_nat [0..<32]\<rparr>"

definition mini_rng :: rng where
  "mini_rng = (\<lambda>i. of_nat (7 * i + 3))"

definition mini_record :: "string \<Rightarrow> QuarantineStatus \<Rightarrow> Date \<Rightarrow> QuarantineRecordAttributes" where
  "mini_record i st expires =
     \<lparr>q_id = i,
      q_s3Key = ''quarantine/2026/02/06/'' @ i,
      q_status = st,
      q_tier = ''HIGH'',
      q_labels = [''SECRET_DETECTED''],
      q_contentType = Some ''POST'',
      q_sourceId = Some ''agent-123'',
      q_encryptionKeyId = ''key-'' @ i,
      q_contentHash = ''abc123'',
      q_sizeBytes = 100,
      q_expiresAt = expires,
      q_reviewedBy = None,
      q_reviewedAt = None,
      q_reviewNotes = None\<rparr>"

definition mini_world :: "bool \<Rightarrow> Date \<Rightarrow> world" where
  "mini_world down now =
     \<lparr>qrecords = [mini_record ''a'' QUARANTINED 100, mini_record ''b'' UNDER_REVIEW 100,
                  mini_record ''c'' RELEASED 100],
      ekeys = [],
      bucket = map_of [(''quarantine/2026/02/06/a'', [1]), (''quarantine/2026/02/06/b'', [2]),
                       (''quarantine/2026/02/06/c'', [3])],
      s3_faults = (\<lambda>n. down),
      clock = (\<lambda>n. now + int n),
      uuids = (\<lambda>n. ''uuid-'' @ digits n),
      random = mini_rng,
      trace = []\<rparr>"

definition mini_metadata :: QuarantineMetadata where
  "mini_metadata =
     \<lparr>m_tier = ''HIGH'', m_labels = [''AWS_KEY''], m_pluginResults = [], m_sourceId = None,
      m_contentType = None\<rparr>"

definition mini_config :: QuarantineConfig where
  "mini_config = \<lparr>c_masterKey = mini_key64, c_expiryHours = None\<rparr>"

definition mini_deps :: ServiceDeps where
  "mini_deps = \<lparr>encryption = mini_service, expiryHours = 72\<rparr>"

text \<open>The content \<^verbatim>\<open>"secret"\<close>, as UTF-16 code units.\<close>

definition mini_content :: jsstring where
  "mini_content = [115, 101, 99, 114, 101, 116]"

section \<open>The encryption service\<close>

text \<open>
  \<^verbatim>\<open>encrypt\<close> reads 56 bytes of the random source: the DEK is the segment at 0, the
  content IV the segment at 32, the DEK IV the segment at 44, and the source it leaves
  starts at 56.
\<close>

lemma randomBytes_segment: "randomBytes n g = (segment g 0 n, \<lambda>i. g (i + n))"
  by (simp add: randomBytes_def segment_def)

lemma segment_shift: "segment (\<lambda>i. g (i + k)) a n = segment g (a + k) n"
  by (simp add: segment_def add.commute add.left_commute)

lemma length_segment: "length (segment g a n) = n"
  by (simp add: segment_def)

lemma encrypt_unfold:
  "encrypt rt svc P g =
     (case aead_encrypt rt ALGORITHM (segment g 0 32) (segment g 32 12) AUTH_TAG_LENGTH P of
        None \<Rightarrow> (Inl CipherError, \<lambda>i. g (i + 44))
      | Some (ct, tag) \<Rightarrow>
          (case aead_encrypt rt ALGORITHM (masterKey svc) (segment g 44 12) AUTH_TAG_LENGTH (segment g 0 32) of
             None \<Rightarrow> (Inl CipherError, \<lambda>i. g (i + 56))
           | Some (wrapped, wrapTag) \<Rightarrow>
               (Inr \<lparr>ciphertext = ct, iv = segment g 32 12, authTag = tag,
                     encryptedDek = wrapped, dekIv = segment g 44 12, dekAuthTag = wrapTag\<rparr>,
                \<lambda>i. g (i + 56))))"
  by (simp add: encrypt_def randomBytes_segment segment_shift DEK_LENGTH_def IV_LENGTH_def add.assoc
        split: option.splits prod.splits)


lemma encrypt_total:
  assumes "aead_correct rt" and "length (masterKey svc) = 32"
  shows "\<exists>p. fst (encrypt rt svc P g) = Inr p"
proof -
  obtain c t where content:
    "aead_encrypt rt ALGORITHM (segment g 0 32) (segment g 32 12) AUTH_TAG_LENGTH P = Some (c, t)"
    using assms(1) length_segment [of g 0 32] length_segment [of g 32 12]
    unfolding aead_correct_def by blast
  obtain c' t' where wrap:
    "aead_encrypt rt ALGORITHM (masterKey svc) (segment g 44 12) AUTH_TAG_LENGTH (segment g 0 32) = Some (c', t')"
    using assms length_segment [of g 44 12]
    unfolding aead_correct_def by blast
  show ?thesis
    by (simp add: encrypt_unfold content wrap)
qed




subsection \<open>The small runtime and the concrete inputs\<close>

lemma mini_runtime_aead_correct: "aead_correct mini_runtime"
  by (auto simp add: aead_correct_def mini_runtime_def mini_aead_encrypt_def mini_aead_decrypt_def
      ALGORITHM_def Let_def comp_def word_bw_assocs)


lemma mini_key64_decoded: "base64_decode mini_runtime mini_key64 = map of_nat [0..<32]"
  by code_simp

lemma mini_service_created: "createEncryptionService mini_runtime mini_key64 = Inr mini_service"
  by (simp add: createEncryptionService_def mini_key64_decoded mini_service_def)

lemma mini_service_key: "length (masterKey mini_service) = 32"
  by (simp add: mini_service_def)


subsection \<open>Construction\<close>

text \<open>
  C8. Constructing the encryption service from a master key whose base64 decoding is not
  exactly 32 bytes long fails at construction with the validation error, which reports
  the decoded length; when the decoding is exactly 32 bytes long the construction
  succeeds, and the service holds the decoded key as it is, neither truncated nor padded.
\<close>

theorem createEncryptionService_key_length:
  "(length (base64_decode rt s) \<noteq> 32 \<longrightarrow>
      createEncryptionService rt s = Inl (ValidationError (length (base64_decode rt s))))
   \<and> (length (base64_decode rt s) = 32 \<longrightarrow>
      createEncryptionService rt s = Inr \<lparr>masterKey = base64_decode rt s\<rparr>)"
  by (simp add: createEncryptionService_def Let_def)

text \<open>
  A 32-byte key is accepted; the empty string (0 bytes) and a 16-byte key are rejected.
\<close>

theorem createEncryptionService_key_length_witness:
  "createEncryptionService mini_runtime mini_key64 = Inr \<lparr>masterKey = map of_nat [0..<32]\<rparr>
   \<and> createEncryptionService mini_runtime '''' = Inl (ValidationError 0)
   \<and> createEncryptionService mini_runtime ''AAECAwQFBgcICQoLDA0ODw=='' = Inl (ValidationError 16)"
proof -
  have a: "length (base64_decode mini_runtime '''') = 0"
    by code_simp
  have b: "length (base64_decode mini_runtime ''AAECAwQFBgcICQoLDA0ODw=='') = 16"
    by code_simp
  have c: "length (base64_decode mini_runtime mini_key64) = 32"
    by (simp add: mini_key64_decoded)
  have "createEncryptionService mini_runtime mini_key64 = Inr \<lparr>masterKey = base64_decode mini_runtime mini_key64\<rparr>"
    using createEncryptionService_key_length [of mini_runtime mini_key64] c by blast
  moreover have "createEncryptionService mini_runtime '''' = Inl (ValidationError 0)"
    using createEncryptionService_key_length [of mini_runtime "''''"] a by simp
  moreover have "createEncryptionService mini_runtime ''AAECAwQFBgcICQoLDA0ODw=='' = Inl (ValidationError 16)"
    using createEncryptionService_key_length [of mini_runtime "''AAECAwQFBgcICQoLDA0ODw==''"] b by simp
  ultimately show ?thesis
    by (simp only: mini_key64_decoded simp_thms)
qed

subsection \<open>Round trip\<close>

text \<open>
  C1. For every plaintext \<open>P\<close>, the empty one included, and every state of the random
  source, \<^verbatim>\<open>encrypt\<close> returns a payload, and \<^verbatim>\<open>decrypt\<close> of that payload by the same
  service (the same master key) returns exactly \<open>P\<close>. The cipher is the runtime's; what
  is assumed of it is \<open>aead_correct\<close>, the functional contract of AES-256-GCM.
\<close>

theorem encrypt_decrypt_roundtrip:
  assumes "aead_correct rt" and "createEncryptionService rt masterKeyBase64 = Inr svc"
  shows "case fst (encrypt rt svc P g) of
           Inl e \<Rightarrow> False
         | Inr payload \<Rightarrow> decrypt rt svc payload = Inr P"
proof -
  have mk: "length (masterKey svc) = 32"
    using assms(2) by (auto simp: createEncryptionService_def Let_def split: if_splits)
  obtain c t where content:
    "aead_encrypt rt ALGORITHM (segment g 0 32) (segment g 32 12) AUTH_TAG_LENGTH P = Some (c, t)"
    "aead_decrypt rt ALGORITHM (segment g 0 32) (segment g 32 12) AUTH_TAG_LENGTH c t = Some P"
    using assms(1) length_segment [of g 0 32] length_segment [of g 32 12]
    unfolding aead_correct_def by blast
  obtain c' t' where wrap:
    "aead_encrypt rt ALGORITHM (masterKey svc) (segment g 44 12) AUTH_TAG_LENGTH (segment g 0 32) = Some (c', t')"
    "aead_decrypt rt ALGORITHM (masterKey svc) (segment g 44 12) AUTH_TAG_LENGTH c' t' = Some (segment g 0 32)"
    using assms(1) mk length_segment [of g 44 12]
    unfolding aead_correct_def by blast
  show ?thesis
    by (simp add: encrypt_unfold decrypt_def content wrap)
qed

text \<open>
  The round trip on the empty plaintext and on a two-byte plaintext.
\<close>

theorem encrypt_decrypt_roundtrip_witness:
  "aead_correct mini_runtime
   \<and> createEncryptionService mini_runtime mini_key64 = Inr mini_service
   \<and> (case fst (encrypt mini_runtime mini_service [] mini_rng) of
         Inl e \<Rightarrow> False
       | Inr payload \<Rightarrow> decrypt mini_runtime mini_service payload = Inr [])
   \<and> (case fst (encrypt mini_runtime mini_service [104, 105] mini_rng) of
         Inl e \<Rightarrow> False
       | Inr payload \<Rightarrow> decrypt mini_runtime mini_service payload = Inr [104, 105])"
  using mini_runtime_aead_correct mini_service_created
    encrypt_decrypt_roundtrip [OF mini_runtime_aead_correct mini_service_created, of "[]" mini_rng]
    encrypt_decrypt_roundtrip [OF mini_runtime_aead_correct mini_service_created, of "[104, 105]" mini_rng]
  by (intro conjI)

subsection \<open>Failing closed\<close>

text \<open>
  \<^verbatim>\<open>decrypt\<close> returns a plaintext only when both decipher sessions succeed, the unwrapping
  of the DEK under the master key and the decryption of the content under that DEK, and
  then it returns what the second session gave; when either session throws, the result
  is the decryption error and no plaintext. Which altered inputs a session rejects is
  decided by the cipher of the runtime.
\<close>

lemma decrypt_fails_closed:
  "decrypt rt svc p = Inr x \<longleftrightarrow>
     (\<exists>dek. aead_decrypt rt ALGORITHM (masterKey svc) (dekIv p) AUTH_TAG_LENGTH (encryptedDek p) (dekAuthTag p) = Some dek
          \<and> aead_decrypt rt ALGORITHM dek (iv p) AUTH_TAG_LENGTH (ciphertext p) (authTag p) = Some x)"
  by (auto simp: decrypt_def split: option.splits)

lemma decrypt_error: "decrypt rt svc p = Inl e \<Longrightarrow> e = DecryptionFailed"
  by (auto simp: decrypt_def split: option.splits)

subsection \<open>Two encryptions of one plaintext\<close>




section \<open>updateStatus\<close>

lemma s3_requests_append [simp]: "s3_requests (xs @ ys) = s3_requests xs @ s3_requests ys"
  by (simp add: s3_requests_def map_filter_def)

lemma s3_requests_simps [simp]:
  "s3_requests [] = []"
  "s3_requests (S3Request c # tr) = c # s3_requests tr"
  "s3_requests (KeyInsert k # tr) = s3_requests tr"
  "s3_requests (RecordInsert k # tr) = s3_requests tr"
  "s3_requests (RecordUpdate k # tr) = s3_requests tr"
  "s3_requests (RecordBulkUpdate ks # tr) = s3_requests tr"
  by (simp_all add: s3_requests_def map_filter_def)


lemma find_id_Some: "find (\<lambda>r. q_id r = i) rows = Some r \<Longrightarrow> q_id r = i \<and> r \<in> set rows"
  by (induction rows) (auto split: if_splits)

lemma find_id_map:
  assumes "find (\<lambda>r. q_id r = i) rows = Some r" and "\<And>x. q_id (f x) = q_id x"
  shows "find (\<lambda>r. q_id r = i) (map (\<lambda>x. if q_id x = i then f x else x) rows) = Some (f r)"
  using assms by (induction rows) (auto split: if_splits)

lemma q_id_set_columns [simp]: "q_id (set_columns u r) = q_id r"
  by (simp add: set_columns_def)

lemma build_updateData_eq:
  "build_updateData status rb rn w =
     (\<lparr>u_status = Some status,
       u_reviewedBy = (if truthy rb then rb else None),
       u_reviewedAt = (if truthy rb then Some (clock w 0) else None),
       u_reviewNotes = (if truthy rn then rn else None)\<rparr>,
      if truthy rb then w\<lparr>clock := \<lambda>n. clock w (Suc n)\<rparr> else w)"
  by (simp add: build_updateData_def newDate_def Let_def)

lemma storage_delete_eq:
  "storage_delete k w =
     (if s3_faults w 0
      then (Inl StorageError,
            w\<lparr>s3_faults := \<lambda>n. s3_faults w (Suc n), trace := trace w @ [S3Request (DeleteObjectCommand k)]\<rparr>)
      else (Inr (),
            w\<lparr>s3_faults := \<lambda>n. s3_faults w (Suc n), trace := trace w @ [S3Request (DeleteObjectCommand k)],
              bucket := (bucket w)(k := None)\<rparr>))"
  by (simp add: storage_delete_def client_send_def Let_def s3_apply_def)

lemma findByPk_id: "QuarantineRecord_findByPk i w = Some r \<Longrightarrow> q_id r = i"
  unfolding QuarantineRecord_findByPk_def using find_id_Some by blast

lemma updateStatus_found_eq:
  assumes "QuarantineRecord_findByPk i w = Some r"
  shows "updateStatus i status rb rn w =
     (let u = fst (build_updateData status rb rn w); w1 = snd (build_updateData status rb rn w)
      in if status = DELETED
         then (if s3_faults w 0
               then (Inl StorageError,
                     w1\<lparr>s3_faults := \<lambda>n. s3_faults w (Suc n),
                        trace := trace w @ [S3Request (DeleteObjectCommand (q_s3Key r))]\<rparr>)
               else (Inr (),
                     record_update i u
                       (w1\<lparr>s3_faults := \<lambda>n. s3_faults w (Suc n),
                           trace := trace w @ [S3Request (DeleteObjectCommand (q_s3Key r))],
                           bucket := (bucket w)(q_s3Key r := None)\<rparr>)))
         else (Inr (), record_update i u w1))"
  by (simp add: updateStatus_def assms findByPk_id [OF assms] storage_delete_eq build_updateData_eq)

lemma getMetadata_record_update:
  assumes "getMetadata i w = Some r" and "qrecords w1 = qrecords w"
  shows "getMetadata i (record_update i u w1) = Some (set_columns u r)"
  using assms find_id_map [of i "qrecords w" r "set_columns u"]
  by (simp add: getMetadata_def QuarantineRecord_findByPk_def record_update_def)

lemma updateStatus_cases:
  assumes "getMetadata i w = Some r"
  shows "updateStatus i status rb rn w =
     (if status = DELETED \<and> s3_faults w 0
      then (Inl StorageError,
            (snd (build_updateData status rb rn w))
              \<lparr>s3_faults := \<lambda>n. s3_faults w (Suc n),
               trace := trace w @ [S3Request (DeleteObjectCommand (q_s3Key r))]\<rparr>)
      else (Inr (),
            record_update i (fst (build_updateData status rb rn w))
              (if status = DELETED
               then (snd (build_updateData status rb rn w))
                      \<lparr>s3_faults := \<lambda>n. s3_faults w (Suc n),
                       trace := trace w @ [S3Request (DeleteObjectCommand (q_s3Key r))],
                       bucket := (bucket w)(q_s3Key r := None)\<rparr>
               else snd (build_updateData status rb rn w))))"
  using assms by (simp add: updateStatus_found_eq getMetadata_def Let_def)

lemma mini_getMetadata_a:
  "getMetadata ''a'' (mini_world down now) = Some (mini_record ''a'' QUARANTINED 100)"
  by (simp add: getMetadata_def QuarantineRecord_findByPk_def mini_world_def mini_record_def)



text \<open>
  C3. For the id of an existing record \<open>r\<close>, \<^verbatim>\<open>updateStatus\<close> sends a request to the
  object store if and only if the new status is \<^verbatim>\<open>DELETED\<close>, and the request is the
  deletion of the blob of \<open>r\<close>. For any other status the call succeeds, the bucket is
  unchanged and the record has the new status. For \<^verbatim>\<open>DELETED\<close>, when the deletion is
  accepted, the blob is gone, the row was updated after the deletion (the trace) and the
  record has status \<^verbatim>\<open>DELETED\<close>; when the deletion is rejected, the call fails with the
  storage error and the table of records is what it was, every field of every record.
\<close>

theorem updateStatus_object_store:
  assumes "getMetadata i w = Some r"
      and "updateStatus i status reviewedBy reviewNotes w = (res, w')"
  shows "s3_requests (trace w') =
           s3_requests (trace w) @ (if status = DELETED then [DeleteObjectCommand (q_s3Key r)] else [])
       \<and> (status \<noteq> DELETED \<longrightarrow>
            res = Inr () \<and> bucket w' = bucket w
            \<and> map_option q_status (getMetadata i w') = Some status)
       \<and> (status = DELETED \<and> \<not> s3_faults w 0 \<longrightarrow>
            res = Inr () \<and> bucket w' = (bucket w)(q_s3Key r := None)
            \<and> trace w' = trace w @ [S3Request (DeleteObjectCommand (q_s3Key r)), RecordUpdate i]
            \<and> map_option q_status (getMetadata i w') = Some DELETED)
       \<and> (status = DELETED \<and> s3_faults w 0 \<longrightarrow>
            res = Inl StorageError \<and> qrecords w' = qrecords w \<and> bucket w' = bucket w
            \<and> trace w' = trace w @ [S3Request (DeleteObjectCommand (q_s3Key r))])"
proof -
  let ?u = "fst (build_updateData status reviewedBy reviewNotes w)"
  let ?w1 = "snd (build_updateData status reviewedBy reviewNotes w)"
  have fr: "qrecords (snd (build_updateData st reviewedBy reviewNotes w)) = qrecords w"
    "trace (snd (build_updateData st reviewedBy reviewNotes w)) = trace w"
    "bucket (snd (build_updateData st reviewedBy reviewNotes w)) = bucket w" for st
    by (simp_all add: build_updateData_eq)
  have us: "q_status (set_columns ?u r) = status"
    by (simp add: build_updateData_eq set_columns_def)
  show ?thesis
  proof (cases "status = DELETED")
    case False
    then have "res = Inr ()" and w': "w' = record_update i ?u ?w1"
      using assms(2) by (simp_all add: updateStatus_cases [OF assms(1)])
    moreover have "getMetadata i (record_update i ?u ?w1) = Some (set_columns ?u r)"
      by (rule getMetadata_record_update [OF assms(1)]) (simp add: fr)
    ultimately show ?thesis
      using False us by (simp add: record_update_def fr)
  next
    case del: True
    show ?thesis
    proof (cases "s3_faults w 0")
      case True
      then have "res = Inl StorageError"
        and "w' = ?w1\<lparr>s3_faults := \<lambda>n. s3_faults w (Suc n),
                       trace := trace w @ [S3Request (DeleteObjectCommand (q_s3Key r))]\<rparr>"
        using assms(2) del by (simp_all add: updateStatus_cases [OF assms(1)])
      with True del show ?thesis
        by (simp add: fr)
    next
      case False
      let ?w2 = "?w1\<lparr>s3_faults := \<lambda>n. s3_faults w (Suc n),
                      trace := trace w @ [S3Request (DeleteObjectCommand (q_s3Key r))],
                      bucket := (bucket w)(q_s3Key r := None)\<rparr>"
      have "res = Inr ()" and w': "w' = record_update i ?u ?w2"
        using assms(2) del False by (simp_all add: updateStatus_cases [OF assms(1)])
      moreover have "getMetadata i (record_update i ?u ?w2) = Some (set_columns ?u r)"
        by (rule getMetadata_record_update [OF assms(1)]) (simp add: fr)
      ultimately show ?thesis
        using False del us by (simp add: record_update_def fr)
    qed
  qed
qed

text \<open>
  Deleting record \<open>a\<close> with a working object store, with a failing one, and moving it
  to review with a failing one (no request is sent, so nothing fails).
\<close>

theorem updateStatus_object_store_witness:
  "(\<exists>w'. updateStatus ''a'' DELETED None None (mini_world False 200) = (Inr (), w')
        \<and> s3_requests (trace w') = [DeleteObjectCommand ''quarantine/2026/02/06/a'']
        \<and> trace w' = [S3Request (DeleteObjectCommand ''quarantine/2026/02/06/a''), RecordUpdate ''a'']
        \<and> bucket w' ''quarantine/2026/02/06/a'' = None
        \<and> map_option q_status (getMetadata ''a'' w') = Some DELETED)
   \<and> (\<exists>w'. updateStatus ''a'' DELETED None None (mini_world True 200) = (Inl StorageError, w')
        \<and> qrecords w' = qrecords (mini_world True 200)
        \<and> bucket w' ''quarantine/2026/02/06/a'' = Some [1])
   \<and> (\<exists>w'. updateStatus ''a'' UNDER_REVIEW None None (mini_world True 200) = (Inr (), w')
        \<and> s3_requests (trace w') = []
        \<and> map_option q_status (getMetadata ''a'' w') = Some UNDER_REVIEW)"
proof -
  let ?ok = "updateStatus ''a'' DELETED None None (mini_world False 200)"
  let ?ko = "updateStatus ''a'' DELETED None None (mini_world True 200)"
  let ?ur = "updateStatus ''a'' UNDER_REVIEW None None (mini_world True 200)"
  have key: "q_s3Key (mini_record ''a'' QUARANTINED 100) = ''quarantine/2026/02/06/a''"
    by (simp add: mini_record_def)
  have w: "s3_faults (mini_world down now) 0 = down" "trace (mini_world down now) = []"
    "bucket (mini_world down now) ''quarantine/2026/02/06/a'' = Some [1]" for down now
    by (simp_all add: mini_world_def)
  have 1: "fst ?ok = Inr () \<and> s3_requests (trace (snd ?ok)) = [DeleteObjectCommand ''quarantine/2026/02/06/a'']
      \<and> trace (snd ?ok) = [S3Request (DeleteObjectCommand ''quarantine/2026/02/06/a''), RecordUpdate ''a'']
      \<and> bucket (snd ?ok) ''quarantine/2026/02/06/a'' = None
      \<and> map_option q_status (getMetadata ''a'' (snd ?ok)) = Some DELETED"
    using updateStatus_object_store [OF mini_getMetadata_a [of False 200], of DELETED None None "fst ?ok" "snd ?ok"]
    by (simp add: key w)
  have 2: "fst ?ko = Inl StorageError \<and> qrecords (snd ?ko) = qrecords (mini_world True 200)
      \<and> bucket (snd ?ko) ''quarantine/2026/02/06/a'' = Some [1]"
    using updateStatus_object_store [OF mini_getMetadata_a [of True 200], of DELETED None None "fst ?ko" "snd ?ko"]
    by (simp add: key w)
  have 3: "fst ?ur = Inr () \<and> s3_requests (trace (snd ?ur)) = []
      \<and> map_option q_status (getMetadata ''a'' (snd ?ur)) = Some UNDER_REVIEW"
    using updateStatus_object_store [OF mini_getMetadata_a [of True 200], of UNDER_REVIEW None None "fst ?ur" "snd ?ur"]
    by (simp add: key w)
  show ?thesis
    using 1 2 3 by (metis prod.collapse)
qed

text \<open>
  C10. For an existing record \<open>r\<close>, a call of \<^verbatim>\<open>updateStatus\<close> with the empty string for
  \<^verbatim>\<open>reviewedBy\<close> is the same as the call without \<^verbatim>\<open>reviewedBy\<close>, and likewise for
  \<^verbatim>\<open>reviewNotes\<close>. When the call succeeds the record has the new status;
  \<^verbatim>\<open>reviewedBy\<close> and \<^verbatim>\<open>reviewedAt\<close> keep their values when the argument \<^verbatim>\<open>reviewedBy\<close> is
  absent or empty, and otherwise become the argument and the reading of the clock;
  \<^verbatim>\<open>reviewNotes\<close> keeps its value when the argument is absent or empty and otherwise
  becomes the argument.
\<close>

theorem updateStatus_empty_reviewer:
  assumes "getMetadata i w = Some r"
  shows "updateStatus i status (Some []) reviewNotes w = updateStatus i status None reviewNotes w
       \<and> updateStatus i status reviewedBy (Some []) w = updateStatus i status reviewedBy None w
       \<and> (fst (updateStatus i status reviewedBy reviewNotes w) = Inr () \<longrightarrow>
            getMetadata i (snd (updateStatus i status reviewedBy reviewNotes w)) =
              Some (r\<lparr>q_status := status,
                      q_reviewedBy := (if reviewedBy = None \<or> reviewedBy = Some []
                                       then q_reviewedBy r else reviewedBy),
                      q_reviewedAt := (if reviewedBy = None \<or> reviewedBy = Some []
                                       then q_reviewedAt r else Some (clock w 0)),
                      q_reviewNotes := (if reviewNotes = None \<or> reviewNotes = Some []
                                        then q_reviewNotes r else reviewNotes)\<rparr>))"
proof -
  let ?u = "fst (build_updateData status reviewedBy reviewNotes w)"
  have same: "build_updateData status (Some []) rn w = build_updateData status None rn w"
    "build_updateData status rb (Some []) w = build_updateData status rb None w" for rb rn
    by (simp_all add: build_updateData_eq truthy_def)
  have fr: "qrecords (snd (build_updateData status reviewedBy reviewNotes w)) = qrecords w"
    by (simp add: build_updateData_eq)
  have t: "truthy x = (\<not> (x = None \<or> x = Some []))" for x
    by (cases x) (simp_all add: truthy_def)
  have cols: "set_columns ?u r =
      r\<lparr>q_status := status,
        q_reviewedBy := (if reviewedBy = None \<or> reviewedBy = Some [] then q_reviewedBy r else reviewedBy),
        q_reviewedAt := (if reviewedBy = None \<or> reviewedBy = Some [] then q_reviewedAt r else Some (clock w 0)),
        q_reviewNotes := (if reviewNotes = None \<or> reviewNotes = Some [] then q_reviewNotes r else reviewNotes)\<rparr>"
    by (cases reviewedBy; cases reviewNotes) (simp_all add: build_updateData_eq set_columns_def t)
  have "getMetadata i (snd (updateStatus i status reviewedBy reviewNotes w)) = Some (set_columns ?u r)"
    if ok: "fst (updateStatus i status reviewedBy reviewNotes w) = Inr ()"
  proof (cases "status = DELETED")
    case True
    then have nf: "\<not> s3_faults w 0"
      using ok by (auto simp: updateStatus_cases [OF assms])
    let ?w2 = "(snd (build_updateData status reviewedBy reviewNotes w))
                 \<lparr>s3_faults := \<lambda>n. s3_faults w (Suc n),
                  trace := trace w @ [S3Request (DeleteObjectCommand (q_s3Key r))],
                  bucket := (bucket w)(q_s3Key r := None)\<rparr>"
    have "snd (updateStatus i status reviewedBy reviewNotes w) = record_update i ?u ?w2"
      using True nf by (simp add: updateStatus_cases [OF assms])
    moreover have "getMetadata i (record_update i ?u ?w2) = Some (set_columns ?u r)"
      by (rule getMetadata_record_update [OF assms]) (simp add: fr)
    ultimately show ?thesis
      by simp
  next
    case False
    then have "snd (updateStatus i status reviewedBy reviewNotes w)
                 = record_update i ?u (snd (build_updateData status reviewedBy reviewNotes w))"
      by (simp add: updateStatus_cases [OF assms])
    moreover have "getMetadata i (record_update i ?u (snd (build_updateData status reviewedBy reviewNotes w)))
                 = Some (set_columns ?u r)"
      by (rule getMetadata_record_update [OF assms fr])
    ultimately show ?thesis
      by simp
  qed
  then have e3: "fst (updateStatus i status reviewedBy reviewNotes w) = Inr () \<longrightarrow>
      getMetadata i (snd (updateStatus i status reviewedBy reviewNotes w)) =
        Some (r\<lparr>q_status := status,
                q_reviewedBy := (if reviewedBy = None \<or> reviewedBy = Some []
                                 then q_reviewedBy r else reviewedBy),
                q_reviewedAt := (if reviewedBy = None \<or> reviewedBy = Some []
                                 then q_reviewedAt r else Some (clock w 0)),
                q_reviewNotes := (if reviewNotes = None \<or> reviewNotes = Some []
                                  then q_reviewNotes r else reviewNotes)\<rparr>)"
    unfolding cols by blast
  have e1: "updateStatus i status (Some []) reviewNotes w = updateStatus i status None reviewNotes w"
    unfolding updateStatus_def same by (rule refl)
  have e2: "updateStatus i status reviewedBy (Some []) w = updateStatus i status reviewedBy None w"
    unfolding updateStatus_def same by (rule refl)
  show ?thesis
    using e1 e2 e3 by (intro conjI)
qed

text \<open>
  Releasing record \<open>a\<close> at time 200 with an empty reviewer, and with a reviewer and a
  note.
\<close>

theorem updateStatus_empty_reviewer_witness:
  "updateStatus ''a'' RELEASED (Some []) (Some ''ok'') (mini_world False 200)
     = updateStatus ''a'' RELEASED None (Some ''ok'') (mini_world False 200)
   \<and> getMetadata ''a'' (snd (updateStatus ''a'' RELEASED (Some []) None (mini_world False 200)))
       = Some (mini_record ''a'' RELEASED 100)
   \<and> getMetadata ''a'' (snd (updateStatus ''a'' RELEASED (Some ''admin-1'') (Some ''False positive'') (mini_world False 200)))
       = Some ((mini_record ''a'' RELEASED 100)
                 \<lparr>q_reviewedBy := Some ''admin-1'', q_reviewedAt := Some 200,
                  q_reviewNotes := Some ''False positive''\<rparr>)"
proof -
  note g = mini_getMetadata_a [of False 200]
  have ok: "fst (updateStatus ''a'' RELEASED rb rn (mini_world False 200)) = Inr ()" for rb rn
    by (simp add: updateStatus_cases [OF g])
  have c: "clock (mini_world False 200) 0 = 200"
    by (simp add: mini_world_def)
  have 1: "updateStatus ''a'' RELEASED (Some []) (Some ''ok'') (mini_world False 200)
             = updateStatus ''a'' RELEASED None (Some ''ok'') (mini_world False 200)"
    using updateStatus_empty_reviewer [OF g, where status = RELEASED and reviewNotes = "Some ''ok''"]
    by blast
  have 2: "getMetadata ''a'' (snd (updateStatus ''a'' RELEASED (Some []) None (mini_world False 200)))
             = Some (mini_record ''a'' RELEASED 100)"
    using updateStatus_empty_reviewer [where i = "''a''" and w = "mini_world False 200"
        and r = "mini_record ''a'' QUARANTINED 100" and status = RELEASED
        and reviewedBy = "Some []" and reviewNotes = None,
        OF g, THEN conjunct2, THEN conjunct2, rule_format, OF ok]
    by (simp add: mini_record_def)
  have 3: "getMetadata ''a'' (snd (updateStatus ''a'' RELEASED (Some ''admin-1'') (Some ''False positive'') (mini_world False 200)))
       = Some ((mini_record ''a'' RELEASED 100)
                 \<lparr>q_reviewedBy := Some ''admin-1'', q_reviewedAt := Some 200,
                  q_reviewNotes := Some ''False positive''\<rparr>)"
    using updateStatus_empty_reviewer [where i = "''a''" and w = "mini_world False 200"
        and r = "mini_record ''a'' QUARANTINED 100" and status = RELEASED
        and reviewedBy = "Some ''admin-1''" and reviewNotes = "Some ''False positive''",
        OF g, THEN conjunct2, THEN conjunct2, rule_format, OF ok]
    by (simp add: mini_record_def c)
  show ?thesis
    using 1 2 3 by (intro conjI)
qed

section \<open>The sweep\<close>

lemma client_send_eq:
  "client_send cmd w =
     (if s3_faults w 0
      then (Inl StorageError,
            w\<lparr>s3_faults := \<lambda>n. s3_faults w (Suc n), trace := trace w @ [S3Request cmd]\<rparr>)
      else (Inr (),
            w\<lparr>s3_faults := \<lambda>n. s3_faults w (Suc n), trace := trace w @ [S3Request cmd],
              bucket := s3_apply cmd (bucket w)\<rparr>))"
  by (simp add: client_send_def Let_def)

lemma deleteMany_loop_frame:
  "qrecords (snd (deleteMany_loop keys w)) = qrecords w
   \<and> ekeys (snd (deleteMany_loop keys w)) = ekeys w
   \<and> clock (snd (deleteMany_loop keys w)) = clock w"
proof (induction keys w rule: deleteMany_loop.induct)
  case (1 keys w)
  show ?case
  proof (cases "keys = []")
    case True
    then show ?thesis
      by (simp add: deleteMany_loop.simps [of "[]" w])
  next
    case False
    show ?thesis
    proof (cases "s3_faults w 0")
      case True
      with False show ?thesis
        by (simp add: deleteMany_loop.simps [of keys w] client_send_eq)
    next
      case ok: False
      let ?w1 = "w\<lparr>s3_faults := \<lambda>n. s3_faults w (Suc n),
                   trace := trace w @ [S3Request (DeleteObjectsCommand (take batchSize keys))],
                   bucket := s3_apply (DeleteObjectsCommand (take batchSize keys)) (bucket w)\<rparr>"
      have cs: "client_send (DeleteObjectsCommand (take batchSize keys)) w = (Inr (), ?w1)"
        using ok by (simp add: client_send_eq)
      have step: "deleteMany_loop keys w = deleteMany_loop (drop batchSize keys) ?w1"
        using False by (simp add: deleteMany_loop.simps [of keys w] cs)
      show ?thesis
        using "1.IH" [OF False cs [symmetric] refl] by (simp add: step)
    qed
  qed
qed

lemma deleteMany_loop_bucket:
  "deleteMany_loop keys w = (Inr u, w') \<Longrightarrow>
     bucket w' = (\<lambda>k. if k \<in> set keys then None else bucket w k)"
proof (induction keys w rule: deleteMany_loop.induct)
  case (1 keys w)
  show ?case
  proof (cases "keys = []")
    case True
    then show ?thesis
      using "1.prems" by (simp add: deleteMany_loop.simps [of "[]" w])
  next
    case False
    show ?thesis
    proof (cases "s3_faults w 0")
      case True
      with False show ?thesis
        using "1.prems" by (simp add: deleteMany_loop.simps [of keys w] client_send_eq)
    next
      case ok: False
      let ?w1 = "w\<lparr>s3_faults := \<lambda>n. s3_faults w (Suc n),
                   trace := trace w @ [S3Request (DeleteObjectsCommand (take batchSize keys))],
                   bucket := s3_apply (DeleteObjectsCommand (take batchSize keys)) (bucket w)\<rparr>"
      have cs: "client_send (DeleteObjectsCommand (take batchSize keys)) w = (Inr (), ?w1)"
        using ok by (simp add: client_send_eq)
      have step: "deleteMany_loop keys w = deleteMany_loop (drop batchSize keys) ?w1"
        using False by (simp add: deleteMany_loop.simps [of keys w] cs)
      have "bucket w' = (\<lambda>k. if k \<in> set (drop batchSize keys) then None else bucket ?w1 k)"
        using "1.IH" [OF False cs [symmetric] refl] "1.prems" by (simp add: step)
      moreover have "set keys = set (take batchSize keys) \<union> set (drop batchSize keys)"
        by (metis append_take_drop_id set_append)
      ultimately show ?thesis
        by (auto simp: s3_apply_def)
    qed
  qed
qed

lemma id_in_filtered:
  assumes "distinct (map q_id rows)" and "r \<in> set rows"
  shows "(q_id r \<in> set (map q_id (filter P rows))) = P r"
proof
  assume "q_id r \<in> set (map q_id (filter P rows))"
  then obtain r' where r': "r' \<in> set rows" "P r'" "q_id r' = q_id r"
    by auto
  have "inj_on q_id (set rows)"
    using assms(1) by (simp add: distinct_map)
  then have "r' = r"
    using r' assms(2) by (auto dest: inj_onD)
  with r' show "P r" by simp
next
  assume "P r"
  with assms(2) show "q_id r \<in> set (map q_id (filter P rows))"
    by auto
qed

lemma expired_where_due: "expired_where = sweep_due"
  by (intro ext) (auto simp: expired_where_def sweep_due_def)

lemma cleanup_eq:
  "cleanup w =
     (let w1 = w\<lparr>clock := \<lambda>n. clock w (Suc n)\<rparr>;
          expiredRecords = filter (sweep_due (clock w 0)) (qrecords w)
      in if expiredRecords = [] then (Inr 0, w1)
         else (case deleteMany_loop (map q_s3Key expiredRecords) w1 of
                 (Inl e, w2) \<Rightarrow> (Inl e, w2)
               | (Inr u, w2) \<Rightarrow>
                   (Inr (length expiredRecords),
                    QuarantineRecord_update
                      \<lparr>u_status = Some EXPIRED, u_reviewedBy = None, u_reviewedAt = None, u_reviewNotes = None\<rparr>
                      (map q_id expiredRecords) w2)))"
  unfolding cleanup_def cleanupExpiredRecords_def newDate_def QuarantineRecord_findAll_def
    storage_deleteMany_def Let_def expired_where_due prod.case
  by (simp split: prod.split sum.split)

lemma set_columns_status_only:
  "set_columns \<lparr>u_status = Some s, u_reviewedBy = None, u_reviewedAt = None, u_reviewNotes = None\<rparr> r
     = r\<lparr>q_status := s\<rparr>"
  by (simp add: set_columns_def)

lemma mini_world_distinct: "distinct (map q_id (qrecords (mini_world down now)))"
  by (simp add: mini_world_def mini_record_def)



text \<open>
  C4 as stated, "the sweep expires the records that are due at the time the scheduler
  supplies", fails: \<^verbatim>\<open>cleanup()\<close> takes no time, it reads the clock of the service. With
  that clock at 50 and the records expiring at 100, the sweep expires nothing and
  returns 0, whatever time the scheduler has in mind; at the scheduler's time 200 the
  specification's sweep would expire two records.
\<close>

theorem cleanup_ignores_supplied_time_counterexample:
  "fst (cleanup (mini_world False 50)) = Inr 0
   \<and> map q_status (qrecords (snd (cleanup (mini_world False 50)))) = [QUARANTINED, UNDER_REVIEW, RELEASED]
   \<and> fst (sweepExpired_spec 200 (qrecords (mini_world False 50)) (bucket (mini_world False 50))) = 2
   \<and> map q_status (fst (snd (sweepExpired_spec 200 (qrecords (mini_world False 50)) (bucket (mini_world False 50)))))
       = [EXPIRED, EXPIRED, RELEASED]"
  by (simp add: cleanup_eq sweepExpired_spec_def sweep_due_def mini_world_def mini_record_def)

text \<open>
  C4, as amended. The sweep takes no time argument: \<open>now\<close> is the reading of the service's
  own clock at the call. On a table whose ids are distinct (\<^verbatim>\<open>id\<close> is the primary key), a
  sweep that succeeds does what the specification's sweep does at that reading: it
  returns the number of records with status \<^verbatim>\<open>QUARANTINED\<close> or \<^verbatim>\<open>UNDER_REVIEW\<close> and
  \<^verbatim>\<open>expiresAt <= now\<close>, it removes their blobs from the bucket, it sets their status to
  \<^verbatim>\<open>EXPIRED\<close>, and it leaves every other record and every other blob as it was.
\<close>

theorem cleanup_sweeps_by_service_clock:
  assumes "distinct (map q_id (qrecords w))" and "cleanup w = (Inr n, w')"
  shows "(n, qrecords w', bucket w') = sweepExpired_spec (clock w 0) (qrecords w) (bucket w)"
proof -
  let ?now = "clock w 0"
  let ?w1 = "w\<lparr>clock := \<lambda>n. clock w (Suc n)\<rparr>"
  let ?ex = "filter (sweep_due ?now) (qrecords w)"
  show ?thesis
  proof (cases "?ex = []")
    case True
    then have "n = 0" and "w' = ?w1"
      using assms(2) by (simp_all add: cleanup_eq Let_def)
    moreover have "\<forall>r \<in> set (qrecords w). \<not> sweep_due ?now r"
      using True by (simp add: filter_empty_conv)
    then have "map (\<lambda>r. if sweep_due ?now r then r\<lparr>q_status := EXPIRED\<rparr> else r) (qrecords w) = qrecords w"
      by (simp add: map_idI)
    ultimately show ?thesis
      using True by (simp add: sweepExpired_spec_def)
  next
    case False
    obtain r w2 where d: "deleteMany_loop (map q_s3Key ?ex) ?w1 = (r, w2)"
      by (cases "deleteMany_loop (map q_s3Key ?ex) ?w1")
    have r: "r = Inr ()"
      using assms(2) False d by (cases r) (simp_all add: cleanup_eq Let_def)
    have n: "n = length ?ex"
      and w': "w' = QuarantineRecord_update
                 \<lparr>u_status = Some EXPIRED, u_reviewedBy = None, u_reviewedAt = None, u_reviewNotes = None\<rparr>
                 (map q_id ?ex) w2"
      using assms(2) False d r by (simp_all add: cleanup_eq Let_def)
    have q2: "qrecords w2 = qrecords w"
      using deleteMany_loop_frame [of "map q_s3Key ?ex" ?w1] d by simp
    have b2: "bucket w2 = (\<lambda>k. if k \<in> set (map q_s3Key ?ex) then None else bucket w k)"
      using deleteMany_loop_bucket [OF d [unfolded r]] by (simp cong: if_cong)
    have rows: "map (\<lambda>x. if q_id x \<in> set (map q_id ?ex) then x\<lparr>q_status := EXPIRED\<rparr> else x) (qrecords w)
                  = map (\<lambda>x. if sweep_due ?now x then x\<lparr>q_status := EXPIRED\<rparr> else x) (qrecords w)"
      by (rule map_cong [OF refl]) (simp only: id_in_filtered [OF assms(1)])
    have "qrecords w' =
            map (\<lambda>x. if q_id x \<in> set (map q_id ?ex) then x\<lparr>q_status := EXPIRED\<rparr> else x) (qrecords w2)"
      unfolding w' QuarantineRecord_update_def set_columns_status_only
      by (simp del: set_map set_filter)
    then have qr: "qrecords w' =
            map (\<lambda>x. if sweep_due ?now x then x\<lparr>q_status := EXPIRED\<rparr> else x) (qrecords w)"
      unfolding q2 rows .
    have br: "bucket w' = bucket w2"
      unfolding w' QuarantineRecord_update_def by simp
    show ?thesis
      unfolding sweepExpired_spec_def by (simp add: n qr br b2)
  qed
qed

text \<open>
  The scenario of the specification, with the clock at 200: the quarantined and the
  reviewed record expire and lose their blobs, the released one is untouched, and the
  count is 2.
\<close>

theorem cleanup_sweeps_by_service_clock_witness:
  "\<exists>w'. cleanup (mini_world False 200) = (Inr 2, w')
     \<and> map q_status (qrecords w') = [EXPIRED, EXPIRED, RELEASED]
     \<and> bucket w' ''quarantine/2026/02/06/a'' = None
     \<and> bucket w' ''quarantine/2026/02/06/b'' = None
     \<and> bucket w' ''quarantine/2026/02/06/c'' = Some [3]"
proof -
  have f: "fst (cleanup (mini_world False 200)) = Inr 2"
    by code_simp
  then have e: "cleanup (mini_world False 200) = (Inr 2, snd (cleanup (mini_world False 200)))"
    by (metis prod.collapse)
  let ?w' = "snd (cleanup (mini_world False 200))"
  let ?spec = "sweepExpired_spec (clock (mini_world False 200) 0) (qrecords (mini_world False 200))
                 (bucket (mini_world False 200))"
  have eq: "(2, qrecords ?w', bucket ?w') = ?spec"
    by (rule cleanup_sweeps_by_service_clock [OF mini_world_distinct e])
  have "qrecords ?w' = fst (snd ?spec)" and "bucket ?w' = snd (snd ?spec)"
    using eq by (metis fst_conv snd_conv)+
  then have "map q_status (qrecords ?w') = [EXPIRED, EXPIRED, RELEASED]
     \<and> bucket ?w' ''quarantine/2026/02/06/a'' = None
     \<and> bucket ?w' ''quarantine/2026/02/06/b'' = None
     \<and> bucket ?w' ''quarantine/2026/02/06/c'' = Some [3]"
    by (simp add: sweepExpired_spec_def sweep_due_def mini_world_def mini_record_def)
  then show ?thesis
    using e by auto
qed

section \<open>store\<close>

lemma find_append_new:
  "i \<notin> set (map q_id rows) \<Longrightarrow> q_id r = i \<Longrightarrow> find (\<lambda>x. q_id x = i) (rows @ [r]) = Some r"
  by (induction rows) auto

lemma store_success:
  assumes "store rt deps content metadata w = (Inr rid, w')"
  obtains payload where
    "fst (encrypt rt (encryption deps) (utf8_encode rt content) (random w)) = Inr payload"
    "uuids w 0 \<notin> set (map k_id (ekeys w))"
    "\<not> s3_faults w 0"
    "uuids w 2 \<notin> set (map q_id (qrecords w))"
    "rid = uuids w 2"
    "ekeys w' = ekeys w @ [new_key_row rt w payload]"
    "qrecords w' = qrecords w @ [new_record_row rt deps content metadata w]"
    "bucket w' = (bucket w)(q_s3Key (new_record_row rt deps content metadata w) \<mapsto> ciphertext payload)"
    "trace w' = trace w @ [KeyInsert (uuids w 0),
        S3Request (PutObjectCommand (q_s3Key (new_record_row rt deps content metadata w)) (ciphertext payload)),
        RecordInsert (uuids w 2)]"
proof -
  obtain enc g where e: "encrypt rt (encryption deps) (utf8_encode rt content) (random w) = (enc, g)"
    by (cases "encrypt rt (encryption deps) (utf8_encode rt content) (random w)")
  show ?thesis
  proof (cases enc)
    case (Inl err)
    then show ?thesis
      using assms e by (simp add: store_def Let_def)
  next
    case (Inr payload)
    have k: "uuids w 0 \<notin> set (map k_id (ekeys w))"
      using assms e Inr
      by (auto simp add: store_def Let_def randomUUID_def EncryptionKey_create_def split: if_splits)
    have f: "\<not> s3_faults w 0"
      using assms e Inr k
      by (auto simp add: store_def Let_def randomUUID_def EncryptionKey_create_def newDate_def
          storage_upload_def client_send_eq split: if_splits)
    have q: "uuids w 2 \<notin> set (map q_id (qrecords w))"
      using assms e Inr k f
      by (auto simp add: store_def Let_def randomUUID_def EncryptionKey_create_def newDate_def
          storage_upload_def client_send_eq QuarantineRecord_create_def s3_apply_def
          numeral_2_eq_2 split: if_splits)
    have res: "rid = uuids w 2 \<and> ekeys w' = ekeys w @ [new_key_row rt w payload]
        \<and> qrecords w' = qrecords w @ [new_record_row rt deps content metadata w]
        \<and> bucket w' = (bucket w)(q_s3Key (new_record_row rt deps content metadata w) \<mapsto> ciphertext payload)
        \<and> trace w' = trace w @ [KeyInsert (uuids w 0),
             S3Request (PutObjectCommand (q_s3Key (new_record_row rt deps content metadata w)) (ciphertext payload)),
             RecordInsert (uuids w 2)]"
      using assms e Inr k f q
      by (auto simp add: store_def Let_def randomUUID_def EncryptionKey_create_def newDate_def
          storage_upload_def client_send_eq QuarantineRecord_create_def s3_apply_def
          new_key_row_def new_record_row_def numeral_2_eq_2)
    show ?thesis
      using that [of payload] e Inr k f q res by simp
  qed
qed

lemma store_succeeds:
  assumes "fst (encrypt rt (encryption deps) (utf8_encode rt content) (random w)) = Inr payload"
      and "uuids w 0 \<notin> set (map k_id (ekeys w))"
      and "\<not> s3_faults w 0"
      and "uuids w 2 \<notin> set (map q_id (qrecords w))"
  shows "fst (store rt deps content metadata w) = Inr (uuids w 2)"
proof -
  obtain enc g where e: "encrypt rt (encryption deps) (utf8_encode rt content) (random w) = (enc, g)"
    by (cases "encrypt rt (encryption deps) (utf8_encode rt content) (random w)")
  then have "enc = Inr payload"
    using assms(1) by simp
  then show ?thesis
    using e assms(2-4)
    by (simp add: store_def Let_def randomUUID_def EncryptionKey_create_def newDate_def
        storage_upload_def client_send_eq QuarantineRecord_create_def s3_apply_def numeral_2_eq_2)
qed

lemma createQuarantineService_Inr:
  assumes "createQuarantineService rt config = Inr deps"
  shows "createEncryptionService rt (c_masterKey config) = Inr (encryption deps)
       \<and> expiryHours deps = (case c_expiryHours config of None \<Rightarrow> 72 | Some h \<Rightarrow> h)"
  using assms
  by (cases "c_expiryHours config")
    (auto simp: createQuarantineService_def DEFAULT_EXPIRY_HOURS_def split: sum.splits)

lemma mini_deps_created: "createQuarantineService mini_runtime mini_config = Inr mini_deps"
  by (simp add: createQuarantineService_def mini_config_def mini_service_created mini_deps_def
      DEFAULT_EXPIRY_HOURS_def)

text \<open>
  C6. For a service made by the factory, a \<^verbatim>\<open>store\<close> that succeeds has encrypted the
  UTF-8 bytes of the content into one payload and has added exactly one key record (with
  a new id, holding the base64 texts of the payload's wrapped DEK, DEK IV and DEK tag),
  sent exactly one upload (the payload's ciphertext, under the new record's storage key)
  and added exactly one quarantine record (under the returned id, which is new), in
  that order. The record is the one \<^verbatim>\<open>getMetadata\<close> finds under the returned id; it
  refers to the key record, its status is \<^verbatim>\<open>QUARANTINED\<close>, its tier and labels are those
  of the metadata, its size is the number of bytes of the plaintext, its content hash is
  the hexadecimal SHA-256 of the plaintext, and it expires at the clock reading of the
  call plus the configured number of hours, 72 when the configuration gives none.
\<close>

theorem store_creates_linked_records:
  assumes "createQuarantineService rt config = Inr deps"
      and "store rt deps content metadata w = (Inr rid, w')"
  shows "\<exists>payload keyRecord record.
           fst (encrypt rt (encryption deps) (utf8_encode rt content) (random w)) = Inr payload
         \<and> ekeys w' = ekeys w @ [keyRecord] \<and> k_id keyRecord \<notin> set (map k_id (ekeys w))
         \<and> qrecords w' = qrecords w @ [record] \<and> rid \<notin> set (map q_id (qrecords w))
         \<and> bucket w' = (bucket w)(q_s3Key record \<mapsto> ciphertext payload)
         \<and> trace w' = trace w @ [KeyInsert (k_id keyRecord),
                                   S3Request (PutObjectCommand (q_s3Key record) (ciphertext payload)),
                                   RecordInsert rid]
         \<and> k_encryptedDataKey keyRecord = base64_encode rt (encryptedDek payload)
         \<and> k_iv keyRecord = base64_encode rt (dekIv payload)
         \<and> k_authTag keyRecord = base64_encode rt (dekAuthTag payload)
         \<and> getMetadata rid w' = Some record
         \<and> q_id record = rid
         \<and> q_encryptionKeyId record = k_id keyRecord
         \<and> q_status record = QUARANTINED
         \<and> q_tier record = m_tier metadata
         \<and> q_labels record = m_labels metadata
         \<and> q_sizeBytes record = length (utf8_encode rt content)
         \<and> q_contentHash record = sha256_hex rt (utf8_encode rt content)
         \<and> q_expiresAt record =
             clock w 0 + (case c_expiryHours config of None \<Rightarrow> 72 | Some h \<Rightarrow> h) * 60 * 60 * 1000"
proof -
  from assms(2) obtain payload where s:
    "fst (encrypt rt (encryption deps) (utf8_encode rt content) (random w)) = Inr payload"
    "uuids w 0 \<notin> set (map k_id (ekeys w))"
    "uuids w 2 \<notin> set (map q_id (qrecords w))"
    "rid = uuids w 2"
    "ekeys w' = ekeys w @ [new_key_row rt w payload]"
    "qrecords w' = qrecords w @ [new_record_row rt deps content metadata w]"
    "bucket w' = (bucket w)(q_s3Key (new_record_row rt deps content metadata w) \<mapsto> ciphertext payload)"
    "trace w' = trace w @ [KeyInsert (uuids w 0),
        S3Request (PutObjectCommand (q_s3Key (new_record_row rt deps content metadata w)) (ciphertext payload)),
        RecordInsert (uuids w 2)]"
    by (rule store_success)
  let ?k = "new_key_row rt w payload"
  let ?r = "new_record_row rt deps content metadata w"
  have ttl: "expiryHours deps = (case c_expiryHours config of None \<Rightarrow> 72 | Some h \<Rightarrow> h)"
    using createQuarantineService_Inr [OF assms(1)] by simp
  have g: "getMetadata rid w' = Some ?r"
    unfolding getMetadata_def QuarantineRecord_findByPk_def s(6)
    using s(3) by (intro find_append_new) (simp_all only: s(4) new_record_row_def QuarantineRecordAttributes.simps simp_thms)
  have k: "k_id ?k = uuids w 0" "k_encryptedDataKey ?k = base64_encode rt (encryptedDek payload)"
    "k_iv ?k = base64_encode rt (dekIv payload)" "k_authTag ?k = base64_encode rt (dekAuthTag payload)"
    by (simp_all add: new_key_row_def)
  have r: "q_id ?r = rid" "q_encryptionKeyId ?r = uuids w 0" "q_status ?r = QUARANTINED"
    "q_tier ?r = m_tier metadata" "q_labels ?r = m_labels metadata"
    "q_sizeBytes ?r = length (utf8_encode rt content)"
    "q_contentHash ?r = sha256_hex rt (utf8_encode rt content)"
    "q_expiresAt ?r = clock w 0 + (case c_expiryHours config of None \<Rightarrow> 72 | Some h \<Rightarrow> h) * 60 * 60 * 1000"
    by (simp_all add: new_record_row_def s(4) ttl)
  have "uuids w 0 \<notin> set (map k_id (ekeys w)) \<and> rid \<notin> set (map q_id (qrecords w))"
    using s(2,3,4) by blast
  then show ?thesis
    apply (intro exI [of _ payload] exI [of _ ?k] exI [of _ ?r])
    apply (simp only: s(1,5,6,7,8) k r g simp_thms)
    apply (simp only: s(4) simp_thms)
    done
qed

text \<open>
  The scenario of the specification: storing \<^verbatim>\<open>"secret"\<close> with tier \<^verbatim>\<open>HIGH\<close> and label
  \<^verbatim>\<open>AWS_KEY\<close> on 6 February 2026 under the default configuration.
\<close>

theorem store_creates_linked_records_witness:
  "createQuarantineService mini_runtime mini_config = Inr mini_deps
   \<and> (\<exists>w' record.
         store mini_runtime mini_deps mini_content mini_metadata (mini_world False 1770336000000)
           = (Inr ''uuid-2'', w')
       \<and> getMetadata ''uuid-2'' w' = Some record
       \<and> q_status record = QUARANTINED \<and> q_sizeBytes record = 6 \<and> q_tier record = ''HIGH''
       \<and> q_labels record = [''AWS_KEY''] \<and> q_expiresAt record = 1770595200000
       \<and> length (qrecords w') = 4 \<and> length (ekeys w') = 1)"
proof -
  let ?w = "mini_world False 1770336000000"
  let ?s = "store mini_runtime mini_deps mini_content mini_metadata ?w"
  obtain payload where p:
    "fst (encrypt mini_runtime (encryption mini_deps) (utf8_encode mini_runtime mini_content) (random ?w))
       = Inr payload"
    using encrypt_total [OF mini_runtime_aead_correct, of "encryption mini_deps"] mini_service_key
    by (auto simp: mini_deps_def)
  have u: "uuids ?w 2 = ''uuid-2''"
    by (simp add: mini_world_def digits.simps [of 2])
  have "fst ?s = Inr (uuids ?w 2)"
    by (rule store_succeeds [OF p]) (simp_all add: u, simp_all add: mini_world_def mini_record_def)
  then have e: "?s = (Inr ''uuid-2'', snd ?s)"
    unfolding u by (metis prod.collapse)
  have len: "length (utf8_encode mini_runtime mini_content) = 6"
    by code_simp
  have w: "clock ?w 0 = 1770336000000" "length (qrecords ?w) = 3" "length (ekeys ?w) = 0"
    by (simp_all add: mini_world_def)
  have c: "c_expiryHours mini_config = None"
    by (simp add: mini_config_def)
  have m: "m_tier mini_metadata = ''HIGH''" "m_labels mini_metadata = [''AWS_KEY'']"
    by (simp_all add: mini_metadata_def)
  show ?thesis
    using store_creates_linked_records [OF mini_deps_created e] e mini_deps_created
    by (auto simp: len w c m)
qed

section \<open>The primary key stays unique\<close>

text \<open>
  The operations keep the ids of the quarantine records distinct, which is what the
  sweep's statement asks of the table: \<^verbatim>\<open>store\<close> adds at most one record, under an id
  that was not there, and \<^verbatim>\<open>updateStatus\<close> and the sweep leave the ids as they are.
\<close>

lemma store_qrecords:
  "qrecords (snd (store rt deps content metadata w)) = qrecords w
   \<or> (uuids w 2 \<notin> set (map q_id (qrecords w))
      \<and> qrecords (snd (store rt deps content metadata w))
            = qrecords w @ [new_record_row rt deps content metadata w])"
proof -
  obtain enc g where e: "encrypt rt (encryption deps) (utf8_encode rt content) (random w) = (enc, g)"
    by (cases "encrypt rt (encryption deps) (utf8_encode rt content) (random w)")
  show ?thesis
  proof (cases enc)
    case (Inl err)
    then show ?thesis
      using e by (simp add: store_def Let_def)
  next
    case (Inr payload)
    show ?thesis
    proof (cases "uuids w 0 \<in> set (map k_id (ekeys w))")
      case True
      then show ?thesis
        using e Inr by (simp add: store_def Let_def randomUUID_def EncryptionKey_create_def)
    next
      case k: False
      show ?thesis
      proof (cases "s3_faults w 0")
        case True
        then show ?thesis
          using e Inr k
          by (simp add: store_def Let_def randomUUID_def EncryptionKey_create_def newDate_def
              storage_upload_def client_send_eq)
      next
        case f: False
        show ?thesis
        proof (cases "uuids w 2 \<in> set (map q_id (qrecords w))")
          case True
          then show ?thesis
            using e Inr k f
            by (simp add: store_def Let_def randomUUID_def EncryptionKey_create_def newDate_def
                storage_upload_def client_send_eq QuarantineRecord_create_def numeral_2_eq_2)
        next
          case False
          then show ?thesis
            using e Inr k f
            by (simp add: store_def Let_def randomUUID_def EncryptionKey_create_def newDate_def
                storage_upload_def client_send_eq QuarantineRecord_create_def numeral_2_eq_2
                new_record_row_def)
        qed
      qed
    qed
  qed
qed

lemma store_keeps_distinct:
  assumes "distinct (map q_id (qrecords w))"
  shows "distinct (map q_id (qrecords (snd (store rt deps content metadata w))))"
  using store_qrecords [of rt deps content metadata w] assms
  by (auto simp: new_record_row_def)

lemma updateStatus_keeps_ids:
  "map q_id (qrecords (snd (updateStatus i status rb rn w))) = map q_id (qrecords w)"
proof (cases "getMetadata i w")
  case None
  then show ?thesis
    by (simp add: updateStatus_def getMetadata_def)
next
  case (Some r)
  show ?thesis
    by (simp add: updateStatus_cases [OF Some] record_update_def build_updateData_eq comp_def)
qed

lemma cleanup_keeps_ids:
  "map q_id (qrecords (snd (cleanup w))) = map q_id (qrecords w)"
proof -
  let ?w1 = "w\<lparr>clock := \<lambda>n. clock w (Suc n)\<rparr>"
  let ?ex = "filter (sweep_due (clock w 0)) (qrecords w)"
  have "qrecords (snd (deleteMany_loop (map q_s3Key ?ex) ?w1)) = qrecords w"
    using deleteMany_loop_frame [of "map q_s3Key ?ex" ?w1] by simp
  then show ?thesis
    by (cases "deleteMany_loop (map q_s3Key ?ex) ?w1")
      (auto simp: cleanup_eq Let_def QuarantineRecord_update_def comp_def split: sum.splits)
qed

end
